theory Spec2Isabelle
  imports Complex_Main
begin

section \<open>Numbers\<close>

text \<open>
  The wheel's angles are JavaScript numbers. They are modelled as exact reals, the
  arithmetic in which the specification states its angle properties; rounding of
  IEEE doubles is outside the model. The remainder operator \<^verbatim>\<open>%\<close> of JavaScript
  truncates the quotient towards zero, so its result carries the sign of the dividend.
\<close>

definition js_trunc :: "real \<Rightarrow> int" where
  "js_trunc q = (if 0 \<le> q then \<lfloor>q\<rfloor> else \<lceil>q\<rceil>)"

definition js_rem :: "real \<Rightarrow> real \<Rightarrow> real" where
  "js_rem a n = a - n * of_int (js_trunc (a / n))"

section \<open>Items\<close>

text \<open>
  \<^verbatim>\<open>SpinnerItem = { id: string; label?: string; color?: string }\<close>. An entry of the
  item array is a \<^verbatim>\<open>SpinnerItem\<close> or \<^verbatim>\<open>null\<close>; \<open>None\<close> is \<^verbatim>\<open>null\<close>.
\<close>

record SpinnerItem =
  item_id :: string
  label :: "string option"
  color :: "string option"

type_synonym slot = "SpinnerItem option"

text \<open>Reading an array at an index: out of range JavaScript yields \<^verbatim>\<open>undefined\<close>, here \<open>None\<close>.\<close>

definition js_index :: "'a list \<Rightarrow> nat \<Rightarrow> 'a option" where
  "js_index xs i = (if i < length xs then Some (xs ! i) else None)"

section \<open>Path geometry (Spinner component)\<close>

record point =
  p_x :: real
  p_y :: real

definition polarToCartesian :: "real \<Rightarrow> real \<Rightarrow> real \<Rightarrow> real \<Rightarrow> point" where
  "polarToCartesian cx cy r angleDeg =
     (let angle = ((angleDeg - 90) * pi) / 180
      in \<lparr>p_x = cx + r * cos angle, p_y = cy + r * sin angle\<rparr>)"

text \<open>
  A path is the sequence of its SVG commands, in the order in which the source joins
  them. \<open>ArcTo rx ry rot largeArc sweep x y\<close> is \<^verbatim>\<open>A rx ry rot largeArc sweep x y\<close>.
\<close>

datatype path_cmd =
    MoveTo real real
  | ArcTo real real real nat nat real real
  | LineTo real real
  | ClosePath

definition donutSlicePath ::
  "real \<Rightarrow> real \<Rightarrow> real \<Rightarrow> real \<Rightarrow> real \<Rightarrow> real \<Rightarrow> path_cmd list" where
  "donutSlicePath cx cy rOuter rInner startAngle endAngle =
     (let largeArc = (if endAngle - startAngle \<le> 180 then 0 else 1);
          inset = (rOuter - rInner) * 0.05;
          rOuterInset = rOuter - inset;
          rInnerInset = rInner + inset;
          p1 = polarToCartesian cx cy rOuterInset endAngle;
          p2 = polarToCartesian cx cy rOuterInset startAngle;
          p3 = polarToCartesian cx cy rInnerInset startAngle;
          p4 = polarToCartesian cx cy rInnerInset endAngle
      in [MoveTo (p_x p1) (p_y p1),
          ArcTo rOuterInset rOuterInset 0 largeArc 0 (p_x p2) (p_y p2),
          LineTo (p_x p3) (p_y p3),
          ArcTo rInnerInset rInnerInset 0 largeArc 1 (p_x p4) (p_y p4),
          ClosePath])"

definition roundedWedgePath ::
  "real \<Rightarrow> real \<Rightarrow> real \<Rightarrow> real \<Rightarrow> real \<Rightarrow> real \<Rightarrow> path_cmd list" where
  "roundedWedgePath cx cy rOuter tipRadius startAngle endAngle =
     (let largeArc = (if endAngle - startAngle \<le> 180 then 0 else 1);
          pStart = polarToCartesian cx cy rOuter startAngle;
          pEnd = polarToCartesian cx cy rOuter endAngle;
          mid = (startAngle + endAngle) / 2;
          tipEps = min 8 ((endAngle - startAngle) / 3);
          tipRight = polarToCartesian cx cy tipRadius (mid - tipEps / 2);
          tipLeft = polarToCartesian cx cy tipRadius (mid + tipEps / 2)
      in [MoveTo (p_x pEnd) (p_y pEnd),
          ArcTo rOuter rOuter 0 largeArc 0 (p_x pStart) (p_y pStart),
          LineTo (p_x tipRight) (p_y tipRight),
          ArcTo tipRadius tipRadius 0 0 1 (p_x tipLeft) (p_y tipLeft),
          LineTo (p_x pEnd) (p_y pEnd),
          ClosePath])"

text \<open>The large-arc flags of a path's arc commands, in path order.\<close>

fun largeArcFlags :: "path_cmd list \<Rightarrow> nat list" where
  "largeArcFlags [] = []"
| "largeArcFlags (ArcTo rx ry rot largeArc sweep x y # cs) = largeArc # largeArcFlags cs"
| "largeArcFlags (c # cs) = largeArcFlags cs"

text \<open>A closed boundary: the path starts with a move and its last command is \<^verbatim>\<open>Z\<close>.\<close>

fun closed_path :: "path_cmd list \<Rightarrow> bool" where
  "closed_path (MoveTo x y # c # cs) = (last (c # cs) = ClosePath)"
| "closed_path cs = False"

section \<open>The Spinner component\<close>

definition SEGMENTS :: nat where
  "SEGMENTS = 8"

definition segAngle :: real where
  "segAngle = 360 / real SEGMENTS"

definition gapDeg :: real where
  "gapDeg = 4"

definition spins :: nat where
  "spins = 5"

subsection \<open>The item sequence \<^verbatim>\<open>data\<close>\<close>

text \<open>\<^verbatim>\<open>while (filled.length < SEGMENTS) filled.push(null)\<close>\<close>

function push_nulls :: "nat \<Rightarrow> 'a option list \<Rightarrow> 'a option list" where
  "push_nulls n filled =
     (if length filled < n then push_nulls n (filled @ [None]) else filled)"
  by pat_completeness auto
termination
  by (relation "measure (\<lambda>(n, filled). n - length filled)") auto

declare push_nulls.simps [simp del]

definition data :: "slot list \<Rightarrow> slot list" where
  "data items =
     (if length items \<noteq> SEGMENTS
      then (let filled = items in take SEGMENTS (push_nulls SEGMENTS filled))
      else items)"

subsection \<open>The landing computation of \<^verbatim>\<open>spin\<close>\<close>

text \<open>
  \<^verbatim>\<open>Math.floor(Math.random() * SEGMENTS)\<close>, for the value \<open>u\<close> that \<^verbatim>\<open>Math.random()\<close>
  returns (a number with \<open>0 \<le> u < 1\<close>).
\<close>

definition targetIndex_of :: "real \<Rightarrow> nat" where
  "targetIndex_of u = nat \<lfloor>u * real SEGMENTS\<rfloor>"

definition current :: "real \<Rightarrow> real" where
  "current rotation = js_rem (js_rem rotation 360 + 360) 360"

definition targetCenterFromZero :: "nat \<Rightarrow> real" where
  "targetCenterFromZero targetIndex = real targetIndex * segAngle + segAngle / 2"

definition baseDelta :: "real \<Rightarrow> nat \<Rightarrow> real" where
  "baseDelta rotation targetIndex = current rotation + targetCenterFromZero targetIndex"

definition toValue :: "real \<Rightarrow> nat \<Rightarrow> real" where
  "toValue rotation targetIndex =
     rotation - baseDelta rotation targetIndex - real spins * 360"

text \<open>
  The same computation with the two local constants of \<^verbatim>\<open>spin\<close>, the segment count
  (8 in the source) and the number of full turns (5 in the source), as parameters.
\<close>

definition toValue_for :: "nat \<Rightarrow> nat \<Rightarrow> real \<Rightarrow> nat \<Rightarrow> real" where
  "toValue_for segments fullSpins rotation targetIndex =
     (let segAngle' = 360 / real segments;
          current' = js_rem (js_rem rotation 360 + 360) 360;
          targetCenterFromZero' = real targetIndex * segAngle' + segAngle' / 2;
          baseDelta' = current' + targetCenterFromZero'
      in rotation - baseDelta' - real fullSpins * 360)"

text \<open>
  \<^verbatim>\<open>spin\<close> hands \<^verbatim>\<open>withTiming\<close> a target value, a duration and a completion callback.
  The callback receives only the flag \<^verbatim>\<open>finished\<close>; a call of \<^verbatim>\<open>onStop\<close> is the pair of
  its arguments, and \<open>None\<close> is no call. \<open>hasOnStop\<close> says whether the optional
  property \<^verbatim>\<open>onStop\<close> was given. The easing curve only shapes the interpolation.
\<close>

record animation =
  anim_toValue :: real
  anim_duration :: nat
  anim_callback :: "bool \<Rightarrow> (nat \<times> slot option) option"

definition spin :: "slot list \<Rightarrow> bool \<Rightarrow> real \<Rightarrow> real \<Rightarrow> animation" where
  "spin items hasOnStop rotation u =
     (let targetIndex = targetIndex_of u
      in \<lparr>anim_toValue = toValue rotation targetIndex,
          anim_duration = 3200,
          anim_callback = (\<lambda>finished.
             if finished
             then (if hasOnStop then Some (targetIndex, js_index (data items) targetIndex)
                   else None)
             else None)\<rparr>)"

subsection \<open>The slices\<close>

record slice =
  path :: "path_cmd list"
  fill :: string

definition segStart :: "nat \<Rightarrow> real" where
  "segStart i = real i * segAngle"

definition segEnd :: "nat \<Rightarrow> real" where
  "segEnd i = segStart i + segAngle"

definition slice_at :: "real \<Rightarrow> bool \<Rightarrow> nat \<Rightarrow> slice" where
  "slice_at size' tapered i =
     (let radius = size' / 2;
          innerRadius = radius * 0.58;
          start' = segStart i + gapDeg / 2;
          end' = segEnd i - gapDeg / 2;
          fill = (if i mod 2 = 0 then ''#F1F2F3'' else ''rgba(131, 145, 161, 1)'');
          path = (if tapered
                  then roundedWedgePath radius radius (radius - 6) (max 6 (radius * 0.06))
                         start' end'
                  else donutSlicePath radius radius (radius - 6) innerRadius start' end')
      in \<lparr>path = path, fill = fill\<rparr>)"

text \<open>\<^verbatim>\<open>for (let i = 0; i < 8; i++) { ...; arr.push({ path, fill }) }\<close>\<close>

function slices_loop :: "real \<Rightarrow> bool \<Rightarrow> nat \<Rightarrow> slice list \<Rightarrow> slice list" where
  "slices_loop size' tapered i arr =
     (if i < 8 then slices_loop size' tapered (i + 1) (arr @ [slice_at size' tapered i])
      else arr)"
  by pat_completeness auto
termination
  by (relation "measure (\<lambda>(size', tapered, i, arr). 8 - i)") auto

declare slices_loop.simps [simp del]

definition slices :: "real \<Rightarrow> bool \<Rightarrow> slice list" where
  "slices size' tapered = slices_loop size' tapered 0 []"

section \<open>The item sequence in a store\<close>

text \<open>
  Arrays are objects: \<^verbatim>\<open>[...items]\<close> and \<^verbatim>\<open>slice\<close> create a new array, \<^verbatim>\<open>push\<close> changes
  the array it is called on. The store holds the arrays, a reference is an index into
  it, and a new array is put at the end, so its reference is one that no array had
  before.
\<close>

type_synonym store = "slot list list"

definition alloc :: "store \<Rightarrow> slot list \<Rightarrow> store \<times> nat" where
  "alloc s xs = (s @ [xs], length s)"

text \<open>\<^verbatim>\<open>while (filled.length < SEGMENTS) filled.push(null)\<close>, on the array that \<open>filled\<close> refers to.\<close>

function push_nulls_at :: "nat \<Rightarrow> store \<Rightarrow> nat \<Rightarrow> store" where
  "push_nulls_at n s filled =
     (if filled < length s \<and> length (s ! filled) < n
      then push_nulls_at n (s[filled := s ! filled @ [None]]) filled
      else s)"
  by pat_completeness auto
termination
  by (relation "measure (\<lambda>(n, s, filled). n - length (s ! filled))") auto

declare push_nulls_at.simps [simp del]

definition data_store :: "store \<Rightarrow> nat \<Rightarrow> store \<times> nat" where
  "data_store s items =
     (if length (s ! items) \<noteq> SEGMENTS
      then (let (s1, filled) = alloc s (s ! items);
                s2 = push_nulls_at SEGMENTS s1 filled
            in alloc s2 (take SEGMENTS (s2 ! filled)))
      else (s, items))"

section \<open>The Spinner of the LiquedGalas file\<close>

definition LiquedGalas_data :: "slot list \<Rightarrow> slot list" where
  "LiquedGalas_data items =
     (let SEGMENTS' = 8
      in if length items \<noteq> SEGMENTS'
         then (let filled = items in take SEGMENTS' (push_nulls SEGMENTS' filled))
         else items)"

definition LiquedGalas_spin :: "slot list \<Rightarrow> bool \<Rightarrow> real \<Rightarrow> real \<Rightarrow> animation" where
  "LiquedGalas_spin items hasOnStop rotation u =
     (let SEGMENTS' = 8;
          segAngle' = 360 / real SEGMENTS';
          targetIndex = nat \<lfloor>u * real SEGMENTS'\<rfloor>;
          current' = js_rem (js_rem rotation 360 + 360) 360;
          targetCenterFromZero' = real targetIndex * segAngle' + segAngle' / 2;
          baseDelta' = current' + targetCenterFromZero';
          spins' = 5;
          toValue' = rotation - baseDelta' - spins' * 360
      in \<lparr>anim_toValue = toValue',
          anim_duration = 3200,
          anim_callback = (\<lambda>finished.
             if finished
             then (if hasOnStop
                   then Some (targetIndex, js_index (LiquedGalas_data items) targetIndex)
                   else None)
             else None)\<rparr>)"

section \<open>Facts about the remainder and the normalised angle\<close>

lemma js_rem_low: "0 \<le> a \<Longrightarrow> a < 360 \<Longrightarrow> js_rem a 360 = a"
proof -
  assume h: "0 \<le> a" "a < 360"
  then have "\<lfloor>a / 360\<rfloor> = 0" by (intro floor_unique) auto
  with h show ?thesis by (simp add: js_rem_def js_trunc_def)
qed

lemma js_rem_high: "360 \<le> a \<Longrightarrow> a < 720 \<Longrightarrow> js_rem a 360 = a - 360"
proof -
  assume h: "360 \<le> a" "a < 720"
  then have "\<lfloor>a / 360\<rfloor> = 1" by (intro floor_unique) auto
  with h show ?thesis by (simp add: js_rem_def js_trunc_def)
qed

lemma floor_part_range:
  fixes r :: real
  shows "0 \<le> r - 360 * of_int \<lfloor>r / 360\<rfloor>" and "r - 360 * of_int \<lfloor>r / 360\<rfloor> < 360"
proof -
  have "of_int \<lfloor>r / 360\<rfloor> \<le> r / 360" by (rule of_int_floor_le)
  then show "0 \<le> r - 360 * of_int \<lfloor>r / 360\<rfloor>" by simp
  show "r - 360 * of_int \<lfloor>r / 360\<rfloor> < 360" by linarith
qed

lemma current_floor: "current r = r - 360 * of_int \<lfloor>r / 360\<rfloor>"
proof -
  let ?q = "\<lfloor>r / 360\<rfloor>"
  let ?a = "r - 360 * of_int ?q"
  have a0: "0 \<le> ?a" and a1: "?a < 360" by (rule floor_part_range)+
  show ?thesis
  proof (cases "0 \<le> r")
    case True
    then have "js_rem r 360 = ?a" by (simp add: js_rem_def js_trunc_def)
    moreover have "js_rem (?a + 360) 360 = ?a + 360 - 360"
      using a0 a1 by (intro js_rem_high) auto
    ultimately show ?thesis by (simp add: current_def)
  next
    case neg: False
    show ?thesis
    proof (cases "?a = 0")
      case True
      then have "r / 360 = of_int ?q" by simp
      then have "\<lceil>r / 360\<rceil> = ?q" by (metis ceiling_of_int)
      with neg have "js_rem r 360 = ?a" by (simp add: js_rem_def js_trunc_def)
      with True have "js_rem r 360 + 360 = 360" by simp
      moreover have "js_rem 360 360 = 360 - 360" by (intro js_rem_high) auto
      ultimately show ?thesis using True by (simp add: current_def)
    next
      case False
      then have "r / 360 \<noteq> of_int ?q" by auto
      then have "\<lceil>r / 360\<rceil> = ?q + 1"
        by (metis ceiling_altdef)
      with neg have "js_rem r 360 = ?a - 360"
        by (simp add: js_rem_def js_trunc_def algebra_simps)
      then have "js_rem r 360 + 360 = ?a" by simp
      moreover have "js_rem ?a 360 = ?a" using a0 a1 by (intro js_rem_low)
      ultimately show ?thesis by (simp add: current_def)
    qed
  qed
qed

lemma current_range: "0 \<le> current r" "current r < 360"
  unfolding current_floor by (rule floor_part_range)+

lemma current_shift: "current (r + 360 * of_int n) = current r"
proof -
  have "(r + 360 * of_int n) / 360 = r / 360 + of_int n" by simp
  then have "\<lfloor>(r + 360 * of_int n) / 360\<rfloor> = \<lfloor>r / 360 + of_int n\<rfloor>" by (simp only:)
  then have "\<lfloor>(r + 360 * of_int n) / 360\<rfloor> = \<lfloor>r / 360\<rfloor> + n" by (simp only: floor_add_int)
  then show ?thesis by (simp add: current_floor algebra_simps)
qed

lemma current_id: "0 \<le> a \<Longrightarrow> a < 360 \<Longrightarrow> current a = a"
  by (simp add: current_def js_rem_low js_rem_high)

lemma toValue_for_source: "toValue_for SEGMENTS spins r i = toValue r i"
  by (simp add: toValue_for_def toValue_def baseDelta_def targetCenterFromZero_def
      current_def segAngle_def Let_def)

section \<open>The landing computation\<close>

text \<open>
  C1 (landing alignment). For every prior rotation \<open>r\<close> and every target index, \<^verbatim>\<open>spin\<close>
  hands the animation the target \<open>r - (norm r + targetCenter + 5 * 360)\<close>, where
  \<open>norm r = ((r % 360) + 360) % 360\<close> and \<open>targetCenter = targetIndex * 45 + 22.5\<close>, and
  the new target plus the target center is a whole multiple of 360: rotated by the new
  target, the center of the target slice is at the pointer. No bound on \<open>r\<close> or on the
  index is needed.
\<close>

theorem landing_alignment:
  "anim_toValue (spin items hasOnStop r u) = toValue r (targetIndex_of u)
   \<and> toValue r i = r - (js_rem (js_rem r 360 + 360) 360 + (real i * 45 + 22.5) + 5 * 360)
   \<and> targetCenterFromZero i = real i * 45 + 22.5
   \<and> (\<exists>n::int. toValue r i + targetCenterFromZero i = 360 * of_int n)
   \<and> current (toValue r i + targetCenterFromZero i) = 0"
proof -
  have sp: "anim_toValue (spin items hasOnStop r u) = toValue r (targetIndex_of u)"
    by (simp add: spin_def Let_def)
  have tc: "targetCenterFromZero i = real i * 45 + 22.5"
    by (simp add: targetCenterFromZero_def segAngle_def SEGMENTS_def)
  have tv: "toValue r i = r - (current r + targetCenterFromZero i + 5 * 360)"
    by (simp add: toValue_def baseDelta_def spins_def)
  have eq: "toValue r i + targetCenterFromZero i = 360 * of_int (\<lfloor>r / 360\<rfloor> - 5)"
    by (simp add: tv current_floor)
  have "current (0 + 360 * of_int (\<lfloor>r / 360\<rfloor> - 5)) = current 0"
    by (rule current_shift)
  then have "current (toValue r i + targetCenterFromZero i) = 0"
    by (simp add: eq current_id)
  with sp tc tv eq show ?thesis unfolding current_def by metis
qed

lemma targetCenter_for_range:
  assumes "0 < N" "i < N"
  shows "0 < real i * (360 / real N) + 360 / real N / 2"
    and "real i * (360 / real N) + 360 / real N / 2 < 360"
proof -
  from assms have n: "0 < real N" by simp
  have e: "real i * (360 / real N) + 360 / real N / 2 = (real i * 360 + 180) / real N"
    by (simp add: add_divide_distrib)
  show "0 < real i * (360 / real N) + 360 / real N / 2"
    unfolding e using n by (intro divide_pos_pos) auto
  from assms have "real i + 1 \<le> real N" by linarith
  then have "real i * 360 + 180 < 360 * real N" by simp
  then show "real i * (360 / real N) + 360 / real N / 2 < 360"
    unfolding e using n by (simp add: pos_divide_less_eq)
qed

lemma current_toValue_for:
  assumes "0 < N" "i < N"
  shows "current (toValue_for N k r i) = 360 - (real i * (360 / real N) + 360 / real N / 2)"
proof -
  let ?tc = "real i * (360 / real N) + 360 / real N / 2"
  have tv: "toValue_for N k r i = r - (current r + ?tc) - real k * 360"
    by (simp add: toValue_for_def current_def Let_def)
  have "toValue_for N k r i = (360 - ?tc) + 360 * of_int (\<lfloor>r / 360\<rfloor> - int k - 1)"
    unfolding tv current_floor by simp
  then have "current (toValue_for N k r i) = current (360 - ?tc)"
    by (simp only: current_shift)
  also have "\<dots> = 360 - ?tc"
    using targetCenter_for_range[OF assms] by (intro current_id) auto
  finally show ?thesis .
qed

text \<open>
  C2 (normalised landing angle), in the form that holds of the code. For every segment count \<open>N > 0\<close>, every
  target index below \<open>N\<close>, every number of full turns \<open>k\<close> and every prior rotation
  \<open>r\<close>, the target value normalised to \<open>[0, 360)\<close> is \<open>360\<close> minus the target center
  \<open>targetIndex * (360 / N) + (360 / N) / 2\<close>: the wheel is turned back by the target center,
  which is what brings that center to the pointer. The value depends neither on \<open>k\<close> nor
  on \<open>r\<close>. At \<open>N = 8\<close> and \<open>k = 5\<close> this is the computation of \<^verbatim>\<open>spin\<close>.
\<close>

theorem landing_normalised:
  assumes "0 < N" and "i < N"
  shows "current (toValue_for N k r i) = 360 - (real i * (360 / real N) + 360 / real N / 2)
     \<and> current (toValue_for N k r i) = current (toValue_for N k' r' i)
     \<and> toValue_for SEGMENTS spins r i = toValue r i"
  using current_toValue_for[OF assms] toValue_for_source by simp

text \<open>
  The amended statement at the magnitudes the specification names: from \<open>7383.5\<close> with
  five turns and from \<open>-912\<close> with none, target index 3 of 8 gives \<open>202.5\<close>.
\<close>

theorem landing_normalised_witness:
  "(0::nat) < 8 \<and> (3::nat) < 8
   \<and> current (toValue_for 8 5 (7383.5) 3) = 202.5
   \<and> current (toValue_for 8 5 (7383.5) 3) = current (toValue_for 8 0 (-912) 3)"
  using landing_normalised[of 8 3 5 "7383.5" 0 "-912"] by simp

text \<open>
  The normalised target is not the target center itself: from \<open>-912\<close>, target index 3 of
  8 and five turns, it is \<open>202.5\<close>, and the center is \<open>157.5\<close>.
\<close>

theorem landing_normalised_counterexample:
  "current (toValue_for 8 5 (-912) 3) \<noteq> js_rem (3 * (360 / 8) + 360 / 8 / 2) 360"
  by (simp add: current_def toValue_for_def js_rem_def js_trunc_def Let_def)

text \<open>
  C3 (end-to-end scenario), in the form that holds of the code. With 8 segments, prior rotation 0, target index
  3 and five full turns, the delta is \<open>0 + (3 * 45 + 22.5) + 1800 = 1957.5\<close>, the new
  rotation is \<open>-1957.5\<close>, and its normalisation \<open>((x % 360) + 360) % 360\<close> is \<open>202.5\<close>,
  which is \<open>360\<close> minus the target center \<open>157.5\<close>.
\<close>

theorem scenario_landing:
  "SEGMENTS = 8 \<and> segAngle = 45 \<and> spins = 5
   \<and> targetCenterFromZero 3 = 157.5
   \<and> baseDelta 0 3 + real spins * 360 = 0 + (3 * 45 + 22.5) + 1800
   \<and> baseDelta 0 3 + real spins * 360 = 1957.5
   \<and> toValue 0 3 = - 1957.5
   \<and> js_rem (js_rem (toValue 0 3) 360 + 360) 360 = 202.5
   \<and> js_rem (js_rem (toValue 0 3) 360 + 360) 360 + targetCenterFromZero 3 = 360"
  by (simp add: SEGMENTS_def segAngle_def spins_def targetCenterFromZero_def baseDelta_def
      toValue_def current_def js_rem_def js_trunc_def)

text \<open>The normalisation of \<open>-1957.5\<close> is not \<open>157.5\<close>.\<close>

theorem scenario_landing_counterexample:
  "toValue 0 3 = - 1957.5
   \<and> js_rem (js_rem (toValue 0 3) 360 + 360) 360 \<noteq> 157.5"
  by (simp add: toValue_def baseDelta_def targetCenterFromZero_def current_def segAngle_def
      SEGMENTS_def spins_def js_rem_def js_trunc_def)

text \<open>
  C8 (the rotation only decreases). For every prior rotation \<open>r\<close> and every target index,
  the new target is strictly below \<open>r\<close>, by at least \<open>spins * 360 = 1800\<close> degrees, since
  the normalised current angle and the target center are not negative; the target is
  stored as it is, without a reduction modulo 360.
\<close>

theorem spin_decreases:
  "toValue r i < r
   \<and> real spins * 360 \<le> r - toValue r i
   \<and> real spins * 360 = 1800
   \<and> 0 \<le> current r \<and> 0 \<le> targetCenterFromZero i
   \<and> anim_toValue (spin items hasOnStop r u) < r"
proof -
  have c: "0 \<le> current r" by (rule current_range)
  have t: "0 \<le> targetCenterFromZero i"
    by (simp add: targetCenterFromZero_def segAngle_def SEGMENTS_def)
  have s: "real spins * 360 = 1800" by (simp add: spins_def)
  have d: "r - toValue r i = current r + targetCenterFromZero i + real spins * 360"
    by (simp add: toValue_def baseDelta_def)
  have lt: "toValue r j < r" for j
  proof -
    have "0 \<le> targetCenterFromZero j"
      by (simp add: targetCenterFromZero_def segAngle_def SEGMENTS_def)
    moreover have "r - toValue r j = current r + targetCenterFromZero j + real spins * 360"
      by (simp add: toValue_def baseDelta_def)
    ultimately show ?thesis using c s by linarith
  qed
  have a: "anim_toValue (spin items hasOnStop r u) = toValue r (targetIndex_of u)"
    by (simp add: spin_def Let_def)
  show ?thesis using c t s d lt[of i] lt[of "targetIndex_of u"] a by simp
qed

section \<open>The item sequence and the completion callback\<close>

lemma push_nulls_eq: "push_nulls n xs = xs @ replicate (n - length xs) None"
proof (induction n xs rule: push_nulls.induct)
  case (1 n filled)
  show ?case
  proof (cases "length filled < n")
    case True
    then have "n - length filled = Suc (n - length (filled @ [None]))" by simp
    then have "replicate (n - length filled) (None :: 'a option)
        = None # replicate (n - length (filled @ [None])) None"
      by (simp only: replicate_Suc)
    with True "1" show ?thesis by (subst push_nulls.simps) simp
  next
    case False
    then show ?thesis by (subst push_nulls.simps) simp
  qed
qed

lemma data_eq: "data items = take SEGMENTS (items @ replicate (SEGMENTS - length items) None)"
  by (simp add: data_def push_nulls_eq Let_def)

lemma length_data: "length (data items) = SEGMENTS"
  by (simp add: data_eq)

lemma targetIndex_range:
  assumes "0 \<le> u" "u < 1"
  shows "targetIndex_of u < SEGMENTS"
proof -
  from assms have "u * 8 < 8" by simp
  then have "\<lfloor>u * 8\<rfloor> < 8" by linarith
  then have "nat \<lfloor>u * 8\<rfloor> < 8" by linarith
  then show ?thesis by (simp add: targetIndex_of_def SEGMENTS_def)
qed

text \<open>
  C5 (normalisation of the item sequence). A sequence shorter than 8 becomes a sequence
  of length 8: the original elements at their positions, in their order, followed by
  empty slots. A sequence longer than 8 becomes its first 8 elements. A sequence of
  length 8 is kept.
\<close>

theorem data_normalised:
  "(length items < SEGMENTS \<longrightarrow>
      length (data items) = 8
      \<and> data items = items @ replicate (8 - length items) None
      \<and> (\<forall>i < length items. data items ! i = items ! i)
      \<and> (\<forall>i. length items \<le> i \<and> i < 8 \<longrightarrow> data items ! i = None))
   \<and> (SEGMENTS < length items \<longrightarrow> data items = take 8 items)
   \<and> (length items = SEGMENTS \<longrightarrow> data items = items)"
  by (auto simp add: data_eq SEGMENTS_def nth_append)

text \<open>A sequence of three slots is padded with five empty ones; one of ten is cut to eight.\<close>

theorem data_normalised_witness:
  "length [Some \<lparr>item_id = ''k'', label = Some ''key'', color = None\<rparr>, None,
           Some \<lparr>item_id = ''bag'', label = None, color = None\<rparr>] < SEGMENTS
   \<and> data [Some \<lparr>item_id = ''k'', label = Some ''key'', color = None\<rparr>, None,
           Some \<lparr>item_id = ''bag'', label = None, color = None\<rparr>]
       = [Some \<lparr>item_id = ''k'', label = Some ''key'', color = None\<rparr>, None,
           Some \<lparr>item_id = ''bag'', label = None, color = None\<rparr>,
           None, None, None, None, None]
   \<and> SEGMENTS < length [None, None, None, None, None, None, None, None, None, None :: slot]
   \<and> data [None, None, None, None, None, None, None, None, None, None]
       = [None, None, None, None, None, None, None, None]"
  using
    data_normalised[of "[Some \<lparr>item_id = ''k'', label = Some ''key'', color = None\<rparr>, None,
           Some \<lparr>item_id = ''bag'', label = None, color = None\<rparr>]"]
    data_normalised[of "[None, None, None, None, None, None, None, None, None, None]"]
  by (simp add: SEGMENTS_def eval_nat_numeral)

text \<open>
  C4 (the callback reports the chosen index). For every value \<open>u\<close> of the random draw
  (\<open>0 \<le> u < 1\<close>), when the animation finishes and \<^verbatim>\<open>onStop\<close> was given, \<^verbatim>\<open>onStop\<close> is called
  with the index computed before the animation started and with the entry of the
  normalised item sequence at that index, which exists (it may be \<^verbatim>\<open>null\<close>). The call is
  the same for every rotation value: no angle enters it. When the animation does not
  finish, or \<^verbatim>\<open>onStop\<close> is absent, there is no call. With target index 3 the call is
  \<open>(3, data[3])\<close>.
\<close>

theorem callback_reports_target:
  assumes "0 \<le> u" and "u < 1"
  shows "targetIndex_of u < length (data items)
     \<and> anim_callback (spin items True r u) True
          = Some (targetIndex_of u, Some (data items ! targetIndex_of u))
     \<and> anim_callback (spin items True r u) True = anim_callback (spin items True r' u) True
     \<and> anim_callback (spin items hasOnStop r u) False = None
     \<and> anim_callback (spin items False r u) finished = None
     \<and> (targetIndex_of u = 3
          \<longrightarrow> anim_callback (spin items True r u) True = Some (3, Some (data items ! 3)))"
proof -
  have "targetIndex_of u < length (data items)"
    using targetIndex_range[OF assms] by (simp add: length_data)
  then show ?thesis by (simp add: spin_def js_index_def Let_def)
qed

text \<open>
  The draw \<open>3 / 8\<close> gives index 3. On the eight slots of the home screen the report is
  index 3 with its empty slot; on a sequence of four slots, from rotation \<open>-1957.5\<close>, it is
  index 3 with the item there.
\<close>

theorem callback_reports_target_witness:
  "(0::real) \<le> (3 / 8) \<and> ((3 / 8)::real) < 1 \<and> targetIndex_of (3 / 8) = 3
   \<and> anim_callback
        (spin [Some \<lparr>item_id = ''k'', label = Some ''key'', color = None\<rparr>, None,
               Some \<lparr>item_id = ''bag'', label = Some ''bag'', color = None\<rparr>, None,
               Some \<lparr>item_id = ''zap'', label = Some ''zap'', color = None\<rparr>, None,
               Some \<lparr>item_id = ''loop'', label = Some ''loop'', color = None\<rparr>, None]
           True 0 (3 / 8)) True
      = Some (3, Some None)
   \<and> anim_callback
        (spin [None, None, None, Some \<lparr>item_id = ''zap'', label = None, color = None\<rparr>]
           True (- 1957.5) (3 / 8)) True
      = Some (3, Some (Some \<lparr>item_id = ''zap'', label = None, color = None\<rparr>))"
proof -
  have t: "targetIndex_of (3 / 8) = 3"
    by (simp add: targetIndex_of_def SEGMENTS_def)
  have d1: "data [Some \<lparr>item_id = ''k'', label = Some ''key'', color = None\<rparr>, None,
               Some \<lparr>item_id = ''bag'', label = Some ''bag'', color = None\<rparr>, None,
               Some \<lparr>item_id = ''zap'', label = Some ''zap'', color = None\<rparr>, None,
               Some \<lparr>item_id = ''loop'', label = Some ''loop'', color = None\<rparr>, None] ! 3
            = None"
    by (simp add: data_def SEGMENTS_def)
  have d2: "data [None, None, None, Some \<lparr>item_id = ''zap'', label = None, color = None\<rparr>] ! 3
            = Some \<lparr>item_id = ''zap'', label = None, color = None\<rparr>"
    by (simp add: data_eq SEGMENTS_def)
  show ?thesis
    using
      callback_reports_target[of "3 / 8"
        "[Some \<lparr>item_id = ''k'', label = Some ''key'', color = None\<rparr>, None,
               Some \<lparr>item_id = ''bag'', label = Some ''bag'', color = None\<rparr>, None,
               Some \<lparr>item_id = ''zap'', label = Some ''zap'', color = None\<rparr>, None,
               Some \<lparr>item_id = ''loop'', label = Some ''loop'', color = None\<rparr>, None]" 0 0
        True True]
      callback_reports_target[of "3 / 8"
        "[None, None, None, Some \<lparr>item_id = ''zap'', label = None, color = None\<rparr>]"
        "- 1957.5" 0 True True]
    by (simp add: t d1 d2)
qed

text \<open>
  C9 (the two Spinner components agree). For the same items, the same rotation value and
  the same random draw, the \<^verbatim>\<open>spin\<close> of the LiquedGalas file and the \<^verbatim>\<open>spin\<close> of the Spinner
  component hand over the same animation: the same target value and the same completion
  callback, hence the same reported index and item. Both normalise the item sequence in
  the same way.
\<close>

theorem spinners_agree:
  "LiquedGalas_spin items hasOnStop rotation u = spin items hasOnStop rotation u
   \<and> anim_toValue (LiquedGalas_spin items hasOnStop rotation u)
       = anim_toValue (spin items hasOnStop rotation u)
   \<and> anim_callback (LiquedGalas_spin items hasOnStop rotation u) finished
       = anim_callback (spin items hasOnStop rotation u) finished
   \<and> LiquedGalas_data items = data items"
proof -
  have d: "LiquedGalas_data items = data items" for items
    by (simp add: LiquedGalas_data_def data_def SEGMENTS_def Let_def)
  have s: "LiquedGalas_spin items hasOnStop rotation u = spin items hasOnStop rotation u"
    unfolding LiquedGalas_spin_def spin_def d Let_def toValue_def baseDelta_def
        current_def targetCenterFromZero_def segAngle_def targetIndex_of_def SEGMENTS_def
        spins_def
    by simp
  show ?thesis by (simp only: d s)
qed

section \<open>The slice paths\<close>

text \<open>
  C6 (large-arc flags), in the form that holds of the code. In a donut slice, the outer and the inner arc carry
  flag 0 when the span \<open>endAngle - startAngle\<close> is at most 180 degrees, and flag 1
  otherwise. In a tapered wedge the outer arc follows the same rule, and the arc of
  the rounded tip always carries flag 0.
\<close>

theorem largeArc_flags:
  "largeArcFlags (donutSlicePath cx cy rOuter rInner startAngle endAngle)
     = (if endAngle - startAngle \<le> 180 then [0, 0] else [1, 1])
   \<and> largeArcFlags (roundedWedgePath cx cy rOuter tipRadius startAngle endAngle)
     = (if endAngle - startAngle \<le> 180 then [0, 0] else [1, 0])"
  by (simp add: donutSlicePath_def roundedWedgePath_def Let_def)

text \<open>
  A tapered wedge from 0 to 270 degrees spans more than 180 degrees; its outer arc has
  flag 1 and its tip arc has flag 0.
\<close>

theorem largeArc_flags_counterexample:
  "\<not> ((270::real) - 0 \<le> 180)
   \<and> largeArcFlags (roundedWedgePath 130 130 124 (39 / 5) 0 270) = [1, 0]"
  by (simp add: roundedWedgePath_def Let_def)

lemma slices_loop_eq:
  "i \<le> 8 \<Longrightarrow> slices_loop sz tapered i arr = arr @ map (slice_at sz tapered) [i..<8]"
proof (induction sz tapered i arr rule: slices_loop.induct)
  case (1 sz tapered i arr)
  show ?case
  proof (cases "i < 8")
    case True
    then have "[i..<8] = i # [i + 1..<8]" by (simp add: upt_conv_Cons)
    with True "1" show ?thesis by (subst slices_loop.simps) simp
  next
    case False
    with "1.prems" have "i = 8" by simp
    then show ?thesis by (subst slices_loop.simps) simp
  qed
qed

lemma slices_eq: "slices sz tapered = map (slice_at sz tapered) [0..<8]"
  by (simp add: slices_def slices_loop_eq)

lemma seg_bounds: "segStart i = real i * 45" "segEnd i = real (i + 1) * 45"
  by (simp_all add: segStart_def segEnd_def segAngle_def SEGMENTS_def algebra_simps)

lemma sector_unique:
  assumes "0 \<le> \<theta>" and "\<theta> < 360"
  shows "\<exists>!i. i < SEGMENTS \<and> segStart i \<le> \<theta> \<and> \<theta> < segEnd i"
proof (rule ex1I)
  let ?i = "nat \<lfloor>\<theta> / 45\<rfloor>"
  from assms have f0: "0 \<le> \<lfloor>\<theta> / 45\<rfloor>" by simp
  from assms have "\<theta> / 45 < 8" by simp
  then have f8: "\<lfloor>\<theta> / 45\<rfloor> < 8" by linarith
  have ri: "real ?i = of_int \<lfloor>\<theta> / 45\<rfloor>" using f0 by simp
  have lo: "real ?i * 45 \<le> \<theta>" unfolding ri by linarith
  have hi: "\<theta> < real (?i + 1) * 45" using ri by (simp add: algebra_simps) linarith
  from f0 f8 have "?i < 8" by linarith
  then show "?i < SEGMENTS \<and> segStart ?i \<le> \<theta> \<and> \<theta> < segEnd ?i"
    using lo hi by (simp only: seg_bounds SEGMENTS_def)
next
  fix j
  let ?i = "nat \<lfloor>\<theta> / 45\<rfloor>"
  assume j: "j < SEGMENTS \<and> segStart j \<le> \<theta> \<and> \<theta> < segEnd j"
  then have "real j * 45 \<le> \<theta>" and "\<theta> < real (j + 1) * 45"
    by (simp_all only: seg_bounds)
  then have "real j \<le> \<theta> / 45" and "\<theta> / 45 < real j + 1" by simp_all
  then have "\<lfloor>\<theta> / 45\<rfloor> = int j" by (intro floor_unique) simp_all
  then show "j = ?i" by simp
qed

subsection \<open>Where the drawn points lie\<close>

lemma polarToCartesian_clockwise:
  "polarToCartesian cx cy r a
     = \<lparr>p_x = cx + r * sin (a * pi / 180), p_y = cy - r * cos (a * pi / 180)\<rparr>"
proof -
  have e: "((a - 90) * pi) / 180 = a * pi / 180 - pi / 2" by (simp add: field_simps)
  have "cos (a * pi / 180 - pi / 2) = sin (a * pi / 180)" by (simp add: cos_diff)
  moreover have "sin (a * pi / 180 - pi / 2) = - cos (a * pi / 180)" by (simp add: sin_diff)
  ultimately show ?thesis unfolding polarToCartesian_def Let_def e by simp
qed

lemma polarToCartesian_up_right:
  "polarToCartesian cx cy r 0 = \<lparr>p_x = cx, p_y = cy - r\<rparr>"
  "polarToCartesian cx cy r 90 = \<lparr>p_x = cx + r, p_y = cy\<rparr>"
proof -
  show "polarToCartesian cx cy r 0 = \<lparr>p_x = cx, p_y = cy - r\<rparr>"
    by (simp add: polarToCartesian_clockwise)
  have "(90 * pi / 180 :: real) = pi / 2" by simp
  then show "polarToCartesian cx cy r 90 = \<lparr>p_x = cx + r, p_y = cy\<rparr>"
    by (simp add: polarToCartesian_clockwise)
qed

lemma polarToCartesian_distance:
  "(p_x (polarToCartesian cx cy r a) - cx)\<^sup>2 + (p_y (polarToCartesian cx cy r a) - cy)\<^sup>2 = r\<^sup>2"
proof -
  have "(r * sin (a * pi / 180))\<^sup>2 + (r * cos (a * pi / 180))\<^sup>2
        = r\<^sup>2 * ((sin (a * pi / 180))\<^sup>2 + (cos (a * pi / 180))\<^sup>2)"
    by (simp only: power_mult_distrib distrib_left)
  also have "\<dots> = r\<^sup>2" by (simp only: sin_cos_squared_add mult_1_right)
  finally show ?thesis by (simp add: polarToCartesian_clockwise)
qed

lemma drawn_angles:
  "segStart i + gapDeg / 2 = real i * 45 + 2"
  "segEnd i - gapDeg / 2 = real i * 45 + 43"
  by (simp_all add: seg_bounds gapDeg_def algebra_simps)

lemma wedge_points:
  "roundedWedgePath c c R t (real i * 45 + 2) (real i * 45 + 43) =
     [MoveTo (c + R * sin ((real i * 45 + 43) * pi / 180))
             (c - R * cos ((real i * 45 + 43) * pi / 180)),
      ArcTo R R 0 0 0 (c + R * sin ((real i * 45 + 2) * pi / 180))
                      (c - R * cos ((real i * 45 + 2) * pi / 180)),
      LineTo (c + t * sin ((real i * 45 + 18.5) * pi / 180))
             (c - t * cos ((real i * 45 + 18.5) * pi / 180)),
      ArcTo t t 0 0 1 (c + t * sin ((real i * 45 + 26.5) * pi / 180))
                      (c - t * cos ((real i * 45 + 26.5) * pi / 180)),
      LineTo (c + R * sin ((real i * 45 + 43) * pi / 180))
             (c - R * cos ((real i * 45 + 43) * pi / 180)),
      ClosePath]"
proof -
  have m: "(real i * 45 + 2 + (real i * 45 + 43)) / 2 - min 8 ((real i * 45 + 43 - (real i * 45 + 2)) / 3) / 2
           = real i * 45 + 18.5"
    "(real i * 45 + 2 + (real i * 45 + 43)) / 2 + min 8 ((real i * 45 + 43 - (real i * 45 + 2)) / 3) / 2
           = real i * 45 + 26.5"
    by (simp_all add: field_simps)
  have f: "(if real i * 45 + 43 - (real i * 45 + 2) \<le> 180 then 0 else 1) = (0::nat)" by simp
  show ?thesis
    unfolding roundedWedgePath_def Let_def m f polarToCartesian_clockwise by simp
qed

lemma donut_points:
  "donutSlicePath c c R rI (real i * 45 + 2) (real i * 45 + 43) =
     [MoveTo (c + (R - (R - rI) * 0.05) * sin ((real i * 45 + 43) * pi / 180))
             (c - (R - (R - rI) * 0.05) * cos ((real i * 45 + 43) * pi / 180)),
      ArcTo (R - (R - rI) * 0.05) (R - (R - rI) * 0.05) 0 0 0
            (c + (R - (R - rI) * 0.05) * sin ((real i * 45 + 2) * pi / 180))
            (c - (R - (R - rI) * 0.05) * cos ((real i * 45 + 2) * pi / 180)),
      LineTo (c + (rI + (R - rI) * 0.05) * sin ((real i * 45 + 2) * pi / 180))
             (c - (rI + (R - rI) * 0.05) * cos ((real i * 45 + 2) * pi / 180)),
      ArcTo (rI + (R - rI) * 0.05) (rI + (R - rI) * 0.05) 0 0 1
            (c + (rI + (R - rI) * 0.05) * sin ((real i * 45 + 43) * pi / 180))
            (c - (rI + (R - rI) * 0.05) * cos ((real i * 45 + 43) * pi / 180)),
      ClosePath]"
proof -
  have f: "(if real i * 45 + 43 - (real i * 45 + 2) \<le> 180 then 0 else 1) = (0::nat)" by simp
  show ?thesis
    unfolding donutSlicePath_def Let_def f polarToCartesian_clockwise by simp
qed

text \<open>
  C7 (the slices). There are exactly 8 slices. Slice \<open>i\<close> belongs to the sector from
  \<open>i * 45\<close> to \<open>(i + 1) * 45\<close> degrees; its path is a closed path, drawn from the sector's
  start plus \<open>gapDeg / 2 = 2\<close> to the sector's end minus \<open>gapDeg / 2\<close>, as a tapered wedge
  or as a donut slice. Angles are measured clockwise from the pointer:
  \<open>polarToCartesian cx cy r a\<close> is the point at distance \<open>r\<close> from the center, \<open>a\<close> degrees
  clockwise from straight up on a screen whose \<open>y\<close> axis points down, so angle 0 is
  straight above the center and angle 90 is to its right. The tapered path starts on the
  outer circle at \<open>i * 45 + 43\<close> degrees, runs along that circle back to \<open>i * 45 + 2\<close>
  degrees, goes to the tip circle at \<open>i * 45 + 18.5\<close> degrees, along it to \<open>i * 45 + 26.5\<close>
  degrees, and returns to its first point. The donut path starts on the outer circle at
  \<open>i * 45 + 43\<close> degrees, runs back to \<open>i * 45 + 2\<close> degrees, crosses to the inner circle
  at the same angle and runs forward on it to \<open>i * 45 + 43\<close> degrees. The sectors start
  at 0, end at 360, and every angle of \<open>[0, 360)\<close> lies in exactly one of them.
\<close>

theorem slices_partition:
  "length (slices sz tapered) = 8
   \<and> (\<forall>i<8.
         path (slices sz tapered ! i)
           = (if tapered
              then roundedWedgePath (sz / 2) (sz / 2) (sz / 2 - 6) (max 6 (sz / 2 * 0.06))
                     (segStart i + gapDeg / 2) (segEnd i - gapDeg / 2)
              else donutSlicePath (sz / 2) (sz / 2) (sz / 2 - 6) (sz / 2 * 0.58)
                     (segStart i + gapDeg / 2) (segEnd i - gapDeg / 2))
         \<and> closed_path (path (slices sz tapered ! i))
         \<and> segStart i = real i * (360 / 8) \<and> segEnd i = real (i + 1) * (360 / 8)
         \<and> segStart i + gapDeg / 2 = real i * 45 + 2
         \<and> segEnd i - gapDeg / 2 = real (i + 1) * 45 - 2
         \<and> (let c = sz / 2; R = sz / 2 - 6; t = max 6 (sz / 2 * 0.06);
                 X = (\<lambda>r a. c + r * sin (a * pi / 180));
                 Y = (\<lambda>r a. c - r * cos (a * pi / 180))
             in path (slices sz True ! i) =
                  [MoveTo (X R (real i * 45 + 43)) (Y R (real i * 45 + 43)),
                   ArcTo R R 0 0 0 (X R (real i * 45 + 2)) (Y R (real i * 45 + 2)),
                   LineTo (X t (real i * 45 + 18.5)) (Y t (real i * 45 + 18.5)),
                   ArcTo t t 0 0 1 (X t (real i * 45 + 26.5)) (Y t (real i * 45 + 26.5)),
                   LineTo (X R (real i * 45 + 43)) (Y R (real i * 45 + 43)),
                   ClosePath])
         \<and> (let c = sz / 2;
                 rO = sz / 2 - 6 - (sz / 2 - 6 - sz / 2 * 0.58) * 0.05;
                 rI = sz / 2 * 0.58 + (sz / 2 - 6 - sz / 2 * 0.58) * 0.05;
                 X = (\<lambda>r a. c + r * sin (a * pi / 180));
                 Y = (\<lambda>r a. c - r * cos (a * pi / 180))
             in path (slices sz False ! i) =
                  [MoveTo (X rO (real i * 45 + 43)) (Y rO (real i * 45 + 43)),
                   ArcTo rO rO 0 0 0 (X rO (real i * 45 + 2)) (Y rO (real i * 45 + 2)),
                   LineTo (X rI (real i * 45 + 2)) (Y rI (real i * 45 + 2)),
                   ArcTo rI rI 0 0 1 (X rI (real i * 45 + 43)) (Y rI (real i * 45 + 43)),
                   ClosePath]))
   \<and> polarToCartesian cx cy r a
        = \<lparr>p_x = cx + r * sin (a * pi / 180), p_y = cy - r * cos (a * pi / 180)\<rparr>
   \<and> polarToCartesian cx cy r 0 = \<lparr>p_x = cx, p_y = cy - r\<rparr>
   \<and> polarToCartesian cx cy r 90 = \<lparr>p_x = cx + r, p_y = cy\<rparr>
   \<and> (p_x (polarToCartesian cx cy r a) - cx)\<^sup>2 + (p_y (polarToCartesian cx cy r a) - cy)\<^sup>2
        = r\<^sup>2
   \<and> gapDeg / 2 = 2
   \<and> segStart 0 = 0 \<and> segEnd 7 = 360
   \<and> (\<forall>\<theta>. 0 \<le> \<theta> \<and> \<theta> < 360
          \<longrightarrow> (\<exists>!i. i < 8 \<and> segStart i \<le> \<theta> \<and> \<theta> < segEnd i))"
proof -
  have len: "length (slices sz tapered) = 8" by (simp add: slices_eq)
  have nth: "slices sz tp ! i = slice_at sz tp i" if "i < 8" for i tp
    using that by (simp add: slices_eq)
  have p: "path (slice_at sz tp i)
           = (if tp
              then roundedWedgePath (sz / 2) (sz / 2) (sz / 2 - 6) (max 6 (sz / 2 * 0.06))
                     (segStart i + gapDeg / 2) (segEnd i - gapDeg / 2)
              else donutSlicePath (sz / 2) (sz / 2) (sz / 2 - 6) (sz / 2 * 0.58)
                     (segStart i + gapDeg / 2) (segEnd i - gapDeg / 2))" for i tp
    by (simp add: slice_at_def Let_def)
  have c: "closed_path (path (slice_at sz tapered i))" for i
    unfolding p by (simp add: roundedWedgePath_def donutSlicePath_def Let_def)
  have b: "segStart i = real i * (360 / 8) \<and> segEnd i = real (i + 1) * (360 / 8)" for i
    by (simp add: seg_bounds)
  have d: "segStart i + gapDeg / 2 = real i * 45 + 2
           \<and> segEnd i - gapDeg / 2 = real (i + 1) * 45 - 2" for i
    by (simp add: drawn_angles algebra_simps)
  have w: "(let c = sz / 2; R = sz / 2 - 6; t = max 6 (sz / 2 * 0.06);
                 X = (\<lambda>r a. c + r * sin (a * pi / 180));
                 Y = (\<lambda>r a. c - r * cos (a * pi / 180))
             in path (slice_at sz True i) =
                  [MoveTo (X R (real i * 45 + 43)) (Y R (real i * 45 + 43)),
                   ArcTo R R 0 0 0 (X R (real i * 45 + 2)) (Y R (real i * 45 + 2)),
                   LineTo (X t (real i * 45 + 18.5)) (Y t (real i * 45 + 18.5)),
                   ArcTo t t 0 0 1 (X t (real i * 45 + 26.5)) (Y t (real i * 45 + 26.5)),
                   LineTo (X R (real i * 45 + 43)) (Y R (real i * 45 + 43)),
                   ClosePath])" for i
    unfolding Let_def p drawn_angles by (simp only: if_True wedge_points)
  have dn: "(let c = sz / 2;
                 rO = sz / 2 - 6 - (sz / 2 - 6 - sz / 2 * 0.58) * 0.05;
                 rI = sz / 2 * 0.58 + (sz / 2 - 6 - sz / 2 * 0.58) * 0.05;
                 X = (\<lambda>r a. c + r * sin (a * pi / 180));
                 Y = (\<lambda>r a. c - r * cos (a * pi / 180))
             in path (slice_at sz False i) =
                  [MoveTo (X rO (real i * 45 + 43)) (Y rO (real i * 45 + 43)),
                   ArcTo rO rO 0 0 0 (X rO (real i * 45 + 2)) (Y rO (real i * 45 + 2)),
                   LineTo (X rI (real i * 45 + 2)) (Y rI (real i * 45 + 2)),
                   ArcTo rI rI 0 0 1 (X rI (real i * 45 + 43)) (Y rI (real i * 45 + 43)),
                   ClosePath])" for i
    unfolding Let_def p drawn_angles by (simp only: if_False donut_points)
  have blk: "path (slices sz tapered ! i)
           = (if tapered
              then roundedWedgePath (sz / 2) (sz / 2) (sz / 2 - 6) (max 6 (sz / 2 * 0.06))
                     (segStart i + gapDeg / 2) (segEnd i - gapDeg / 2)
              else donutSlicePath (sz / 2) (sz / 2) (sz / 2 - 6) (sz / 2 * 0.58)
                     (segStart i + gapDeg / 2) (segEnd i - gapDeg / 2))
         \<and> closed_path (path (slices sz tapered ! i))
         \<and> segStart i = real i * (360 / 8) \<and> segEnd i = real (i + 1) * (360 / 8)
         \<and> segStart i + gapDeg / 2 = real i * 45 + 2
         \<and> segEnd i - gapDeg / 2 = real (i + 1) * 45 - 2
         \<and> (let c = sz / 2; R = sz / 2 - 6; t = max 6 (sz / 2 * 0.06);
                 X = (\<lambda>r a. c + r * sin (a * pi / 180));
                 Y = (\<lambda>r a. c - r * cos (a * pi / 180))
             in path (slices sz True ! i) =
                  [MoveTo (X R (real i * 45 + 43)) (Y R (real i * 45 + 43)),
                   ArcTo R R 0 0 0 (X R (real i * 45 + 2)) (Y R (real i * 45 + 2)),
                   LineTo (X t (real i * 45 + 18.5)) (Y t (real i * 45 + 18.5)),
                   ArcTo t t 0 0 1 (X t (real i * 45 + 26.5)) (Y t (real i * 45 + 26.5)),
                   LineTo (X R (real i * 45 + 43)) (Y R (real i * 45 + 43)),
                   ClosePath])
         \<and> (let c = sz / 2;
                 rO = sz / 2 - 6 - (sz / 2 - 6 - sz / 2 * 0.58) * 0.05;
                 rI = sz / 2 * 0.58 + (sz / 2 - 6 - sz / 2 * 0.58) * 0.05;
                 X = (\<lambda>r a. c + r * sin (a * pi / 180));
                 Y = (\<lambda>r a. c - r * cos (a * pi / 180))
             in path (slices sz False ! i) =
                  [MoveTo (X rO (real i * 45 + 43)) (Y rO (real i * 45 + 43)),
                   ArcTo rO rO 0 0 0 (X rO (real i * 45 + 2)) (Y rO (real i * 45 + 2)),
                   LineTo (X rI (real i * 45 + 2)) (Y rI (real i * 45 + 2)),
                   ArcTo rI rI 0 0 1 (X rI (real i * 45 + 43)) (Y rI (real i * 45 + 43)),
                   ClosePath])" if "i < 8" for i
    unfolding nth[OF that] using p[of tapered i] c[of i] b[of i] d[of i] w[of i] dn[of i]
    by (intro conjI) blast+
  have g: "gapDeg / 2 = 2" by (simp add: gapDeg_def)
  have e: "segStart 0 = 0" "segEnd 7 = 360" by (simp_all add: seg_bounds)
  have u: "\<forall>\<theta>. 0 \<le> \<theta> \<and> \<theta> < 360
          \<longrightarrow> (\<exists>!i. i < 8 \<and> segStart i \<le> \<theta> \<and> \<theta> < segEnd i)"
    using sector_unique by (simp add: SEGMENTS_def)
  show ?thesis
    by (intro conjI allI impI blk len polarToCartesian_clockwise polarToCartesian_up_right
        polarToCartesian_distance g e u[rule_format]) auto
qed

text \<open>
  At size 260, slice 3 is drawn from 137 to 178 degrees in both shapes, on the outer
  circle of radius 124 around \<open>(130, 130)\<close> with its tip at 153.5 and 161.5 degrees; the
  point of that circle at angle 0 is \<open>(130, 6)\<close> and the one at angle 90 is \<open>(254, 130)\<close>;
  the angle 100 lies in sector 2 only.
\<close>

theorem slices_partition_witness:
  "(3::nat) < 8
   \<and> path (slices 260 True ! 3) = roundedWedgePath 130 130 124 (39 / 5) 137 178
   \<and> closed_path (path (slices 260 True ! 3))
   \<and> path (slices 260 False ! 3) = donutSlicePath 130 130 124 (377 / 5) 137 178
   \<and> path (slices 260 True ! 3) =
        [MoveTo (130 + 124 * sin (178 * pi / 180)) (130 - 124 * cos (178 * pi / 180)),
         ArcTo 124 124 0 0 0 (130 + 124 * sin (137 * pi / 180))
                             (130 - 124 * cos (137 * pi / 180)),
         LineTo (130 + 39 / 5 * sin (153.5 * pi / 180)) (130 - 39 / 5 * cos (153.5 * pi / 180)),
         ArcTo (39 / 5) (39 / 5) 0 0 1 (130 + 39 / 5 * sin (161.5 * pi / 180))
                                       (130 - 39 / 5 * cos (161.5 * pi / 180)),
         LineTo (130 + 124 * sin (178 * pi / 180)) (130 - 124 * cos (178 * pi / 180)),
         ClosePath]
   \<and> polarToCartesian 130 130 124 0 = \<lparr>p_x = 130, p_y = 6\<rparr>
   \<and> polarToCartesian 130 130 124 90 = \<lparr>p_x = 254, p_y = 130\<rparr>
   \<and> (0::real) \<le> 100 \<and> (100::real) < 360
   \<and> (\<exists>!i. i < 8 \<and> segStart i \<le> 100 \<and> 100 < segEnd i)
   \<and> segStart 2 \<le> 100 \<and> 100 < segEnd 2"
proof -
  have t: "(3::nat) < 8" by simp
  have s3: "segStart 3 + gapDeg / 2 = 137" "segEnd 3 - gapDeg / 2 = 178"
    by (simp_all add: segStart_def segEnd_def segAngle_def SEGMENTS_def gapDeg_def)
  have s2: "segStart 2 \<le> 100" "100 < segEnd 2"
    by (simp_all add: segStart_def segEnd_def segAngle_def SEGMENTS_def)
  note T = slices_partition[of 260 True 130 130 124 0]
  note F = slices_partition[of 260 False 130 130 124 0]
  note a = T[THEN conjunct2, THEN conjunct1, rule_format, OF t]
  note b = F[THEN conjunct2, THEN conjunct1, rule_format, OF t]
  have h: "(0::real) \<le> 100 \<and> (100::real) < 360" by simp
  note rest = T[THEN conjunct2, THEN conjunct2]
  have g1: "path (slices 260 True ! 3) = roundedWedgePath 130 130 124 (39 / 5) 137 178"
    using a[THEN conjunct1] unfolding s3 by simp
  have g2: "closed_path (path (slices 260 True ! 3))"
    by (rule a[THEN conjunct2, THEN conjunct1])
  have g3: "path (slices 260 False ! 3) = donutSlicePath 130 130 124 (377 / 5) 137 178"
    using b[THEN conjunct1] unfolding s3 by simp
  have g4: "path (slices 260 True ! 3) =
        [MoveTo (130 + 124 * sin (178 * pi / 180)) (130 - 124 * cos (178 * pi / 180)),
         ArcTo 124 124 0 0 0 (130 + 124 * sin (137 * pi / 180))
                             (130 - 124 * cos (137 * pi / 180)),
         LineTo (130 + 39 / 5 * sin (153.5 * pi / 180)) (130 - 39 / 5 * cos (153.5 * pi / 180)),
         ArcTo (39 / 5) (39 / 5) 0 0 1 (130 + 39 / 5 * sin (161.5 * pi / 180))
                                       (130 - 39 / 5 * cos (161.5 * pi / 180)),
         LineTo (130 + 124 * sin (178 * pi / 180)) (130 - 124 * cos (178 * pi / 180)),
         ClosePath]"
    using a[THEN conjunct2, THEN conjunct2, THEN conjunct2, THEN conjunct2, THEN conjunct2,
        THEN conjunct2, THEN conjunct1]
    by (simp add: Let_def)
  have g5: "polarToCartesian 130 130 124 0 = \<lparr>p_x = 130, p_y = 6\<rparr>"
    using rest[THEN conjunct2, THEN conjunct1] by simp
  have g6: "polarToCartesian 130 130 124 90 = \<lparr>p_x = 254, p_y = 130\<rparr>"
    using rest[THEN conjunct2, THEN conjunct2, THEN conjunct1] by simp
  note c = rest[THEN conjunct2, THEN conjunct2, THEN conjunct2, THEN conjunct2,
      THEN conjunct2, THEN conjunct2, THEN conjunct2, rule_format, OF h]
  from t g1 g2 g3 g4 g5 g6 c s2 h show ?thesis by blast
qed

section \<open>The item sequence leaves the caller's array alone\<close>

lemma push_nulls_at_eq:
  "filled < length s \<Longrightarrow>
   push_nulls_at n s filled = s[filled := s ! filled @ replicate (n - length (s ! filled)) None]"
proof (induction n s filled rule: push_nulls_at.induct)
  case (1 n s filled)
  show ?case
  proof (cases "length (s ! filled) < n")
    case True
    let ?s = "s[filled := s ! filled @ [None]]"
    have l: "filled < length ?s" using "1.prems" by simp
    have e: "?s ! filled = s ! filled @ [None]" using "1.prems" by simp
    have "n - length (s ! filled) = Suc (n - length (s ! filled @ [None]))"
      using True by simp
    then have r: "replicate (n - length (s ! filled)) (None :: slot)
        = None # replicate (n - length (s ! filled @ [None])) None"
      by (simp only: replicate_Suc)
    have "push_nulls_at n s filled = push_nulls_at n ?s filled"
      using True "1.prems" by (subst push_nulls_at.simps) simp
    also have "\<dots> = ?s[filled := ?s ! filled @ replicate (n - length (?s ! filled)) None]"
      using True "1.prems" l by (intro "1.IH") auto
    also have "\<dots> = s[filled := s ! filled @ replicate (n - length (s ! filled)) None]"
      unfolding e r by simp
    finally show ?thesis .
  next
    case False
    then have "push_nulls_at n s filled = s" by (subst push_nulls_at.simps) simp
    moreover have "s[filled := s ! filled @ replicate (n - length (s ! filled)) None] = s"
      using False by simp
    ultimately show ?thesis by simp
  qed
qed

lemma data_store_eq:
  "data_store s items =
     (if length (s ! items) \<noteq> SEGMENTS
      then (s @ [s ! items @ replicate (SEGMENTS - length (s ! items)) None, data (s ! items)],
            Suc (length s))
      else (s, items))"
proof -
  have "push_nulls_at SEGMENTS (s @ [s ! items]) (length s)
        = s @ [s ! items @ replicate (SEGMENTS - length (s ! items)) None]"
    by (subst push_nulls_at_eq) simp_all
  then show ?thesis
    by (simp add: data_store_def alloc_def data_eq Let_def)
qed

text \<open>
  C10 (no mutation of the caller's sequence). \<open>items\<close> refers to an array of the store.
  After \<^verbatim>\<open>data\<close> every array that existed before, the caller's among them, has its length
  and its elements as before. When the array has length 8 the result is the same
  reference and the store is unchanged. Otherwise the result is a reference that did
  not exist before, and the array there is the normalised sequence.
\<close>

theorem data_store_frame:
  assumes "items < length s" and "data_store s items = (s', res)"
  shows "take (length s) s' = s
     \<and> s' ! items = s ! items
     \<and> res < length s'
     \<and> s' ! res = data (s ! items)
     \<and> (length (s ! items) = SEGMENTS \<longrightarrow> res = items \<and> s' = s)
     \<and> (length (s ! items) \<noteq> SEGMENTS \<longrightarrow> length s \<le> res \<and> res \<noteq> items)"
proof (cases "length (s ! items) = SEGMENTS")
  case True
  with assms(2) have "s' = s" "res = items" by (simp_all add: data_store_eq)
  with True assms(1) show ?thesis by (simp add: data_def)
next
  case False
  with assms(2) have
    s': "s' = s @ [s ! items @ replicate (SEGMENTS - length (s ! items)) None, data (s ! items)]"
    and r: "res = Suc (length s)"
    by (simp_all add: data_store_eq)
  from assms(1) have "s' ! items = s ! items" unfolding s' by (simp add: nth_append)
  moreover have "s' ! res = data (s ! items)" unfolding s' r by (simp add: nth_append)
  ultimately show ?thesis using False assms(1) by (simp add: s' r)
qed

text \<open>
  From a store with one array of two slots: the array is still there, the copy that was
  padded and the result of length 8 are new, and the result is the reference 2.
\<close>

theorem data_store_frame_witness:
  "(0::nat) < length [[Some \<lparr>item_id = ''k'', label = None, color = None\<rparr>, None]]
   \<and> data_store [[Some \<lparr>item_id = ''k'', label = None, color = None\<rparr>, None]] 0
       = ([[Some \<lparr>item_id = ''k'', label = None, color = None\<rparr>, None],
           [Some \<lparr>item_id = ''k'', label = None, color = None\<rparr>, None,
            None, None, None, None, None, None],
           [Some \<lparr>item_id = ''k'', label = None, color = None\<rparr>, None,
            None, None, None, None, None, None]], 2)
   \<and> data [Some \<lparr>item_id = ''k'', label = None, color = None\<rparr>, None]
       = [Some \<lparr>item_id = ''k'', label = None, color = None\<rparr>, None,
            None, None, None, None, None, None]"
proof -
  have l: "(0::nat) < length [[Some \<lparr>item_id = ''k'', label = None, color = None\<rparr>, None]]"
    by simp
  have e: "data_store [[Some \<lparr>item_id = ''k'', label = None, color = None\<rparr>, None]] 0
       = ([[Some \<lparr>item_id = ''k'', label = None, color = None\<rparr>, None],
           [Some \<lparr>item_id = ''k'', label = None, color = None\<rparr>, None,
            None, None, None, None, None, None],
           [Some \<lparr>item_id = ''k'', label = None, color = None\<rparr>, None,
            None, None, None, None, None, None]], 2)"
    by (simp add: data_store_eq data_eq SEGMENTS_def eval_nat_numeral)
  show ?thesis using data_store_frame[OF l e] l e by simp
qed

end
